theory Spec2Isabelle
  imports Complex_Main
begin

section \<open>Errors raised by the scripts\<close>

text \<open>
  Every Python exception that the modelled code can raise is a value of this type; a
  computation that may raise returns \<open>error + 'a\<close> with \<open>Inl\<close> carrying the exception.
\<close>

datatype error =
    AssertionError
  | AttributeError
  | ImportError
  | IndexError
  | OverflowError
  | UnboundLocalError
  | ValueError
  | ZeroDivisionError

section \<open>Tensor operators used by the projected LSTM cell\<close>

text \<open>
  A two-dimensional tensor of shape (batch, width) is a list of rows. Floats are modelled
  as reals. The operators below are the framework operators that \<open>hybrid_forward\<close> calls
  (\<open>F.FullyConnected\<close>, \<open>F.SliceChannel\<close>, \<open>F.Activation\<close>, \<open>F.clip\<close>, element-wise
  plus and times), on operands of matching shape; the framework checks the shapes itself,
  and \<open>num_hidden\<close> only declares the row count of the weight matrix.
\<close>

type_synonym vec = "real list"
type_synonym tensor = "real list list"

definition dot :: "vec \<Rightarrow> vec \<Rightarrow> real" where
  "dot w x = sum_list (map2 (*) w x)"

text \<open>\<open>F.FullyConnected(data, weight, bias)\<close>: every row \<open>x\<close> becomes \<open>W x + b\<close>;
  \<open>no_bias=True\<close> is \<open>bias = None\<close>.\<close>

definition FullyConnected :: "tensor \<Rightarrow> real list list \<Rightarrow> vec option \<Rightarrow> tensor" where
  "FullyConnected data weight bias =
     map (\<lambda>x. case bias of
                 None \<Rightarrow> map (\<lambda>w. dot w x) weight
               | Some b \<Rightarrow> map2 (\<lambda>w c. dot w x + c) weight b) data"

text \<open>\<open>F.SliceChannel(gates, num_outputs)[k]\<close>: the \<open>k\<close>-th of \<open>num_outputs\<close> equal
  pieces of every row.\<close>

definition SliceChannel :: "tensor \<Rightarrow> nat \<Rightarrow> nat \<Rightarrow> tensor" where
  "SliceChannel gates num_outputs k =
     map (\<lambda>row. take (length row div num_outputs)
                   (drop (k * (length row div num_outputs)) row)) gates"

datatype act_type = Sigmoid | Tanh

definition sigmoid :: "real \<Rightarrow> real" where
  "sigmoid x = 1 / (1 + exp (- x))"

fun act_fn :: "act_type \<Rightarrow> real \<Rightarrow> real" where
  "act_fn Sigmoid x = sigmoid x"
| "act_fn Tanh x = tanh x"

definition Activation :: "tensor \<Rightarrow> act_type \<Rightarrow> tensor" where
  "Activation t a = map (map (act_fn a)) t"

definition tplus :: "tensor \<Rightarrow> tensor \<Rightarrow> tensor" where
  "tplus a b = map2 (map2 (+)) a b"

definition tmul :: "tensor \<Rightarrow> tensor \<Rightarrow> tensor" where
  "tmul a b = map2 (map2 (*)) a b"

text \<open>\<open>F.clip(x, a_min, a_max)\<close>: an entry above \<open>a_max\<close> becomes \<open>a_max\<close>, otherwise an
  entry below \<open>a_min\<close> becomes \<open>a_min\<close>, otherwise it is kept.\<close>

definition clip1 :: "real \<Rightarrow> real \<Rightarrow> real \<Rightarrow> real" where
  "clip1 a_min a_max v = (if v > a_max then a_max else if v < a_min then a_min else v)"

definition clip :: "tensor \<Rightarrow> real \<Rightarrow> real \<Rightarrow> tensor" where
  "clip t a_min a_max = map (map (clip1 a_min a_max)) t"

section \<open>LSTMPCellWithClip\<close>

record LSTMPCellWithClip =
  self_hidden_size :: nat
  self_projection_size :: nat
  self_cell_clip :: "real option"
  self_projection_clip :: "real option"

record cell_params =
  i2h_weight :: "real list list"
  h2h_weight :: "real list list"
  h2r_weight :: "real list list"
  i2h_bias :: vec
  h2h_bias :: vec

text \<open>
  \<open>LSTMPCellWithClip.hybrid_forward\<close>. \<open>states\<close> is the pair (\<open>states[0]\<close>, \<open>states[1]\<close>);
  \<open>F.clip(..., out=next_c)\<close> overwrites \<open>next_c\<close>, so the clipped tensor is the one used
  afterwards and returned. The result is (\<open>next_r\<close>, [\<open>next_r\<close>, \<open>next_c\<close>]).
\<close>

definition hybrid_forward ::
  "LSTMPCellWithClip \<Rightarrow> tensor \<Rightarrow> tensor \<times> tensor \<Rightarrow> cell_params
     \<Rightarrow> tensor \<times> (tensor \<times> tensor)" where
  "hybrid_forward self inputs states p =
     (let i2h = FullyConnected inputs (i2h_weight p) (Some (i2h_bias p));
          h2h = FullyConnected (fst states) (h2h_weight p) (Some (h2h_bias p));
          gates = tplus i2h h2h;
          in_gate = Activation (SliceChannel gates 4 0) Sigmoid;
          forget_gate = Activation (SliceChannel gates 4 1) Sigmoid;
          in_transform = Activation (SliceChannel gates 4 2) Tanh;
          out_gate = Activation (SliceChannel gates 4 3) Sigmoid;
          next_c0 = tplus (tmul forget_gate (snd states)) (tmul in_gate in_transform);
          next_c = (case self_cell_clip self of
                      None \<Rightarrow> next_c0
                    | Some b \<Rightarrow> clip next_c0 (- b) b);
          hidden = tmul out_gate (Activation next_c Tanh);
          next_r0 = FullyConnected hidden (h2r_weight p) None;
          next_r = (case self_projection_clip self of
                      None \<Rightarrow> next_r0
                    | Some b \<Rightarrow> clip next_r0 (- b) b)
      in (next_r, (next_r, next_c)))"


text \<open>
  The projected-LSTM equations of the class documentation, for one example of the batch:
  the four gate blocks of the stacked weight matrices and biases, each of \<open>n\<close> rows, in
  the order input, forget, cell, output.
\<close>

definition gate_block :: "nat \<Rightarrow> nat \<Rightarrow> 'a list \<Rightarrow> 'a list" where
  "gate_block n k xs = take n (drop (k * n) xs)"

definition matvec :: "real list list \<Rightarrow> vec \<Rightarrow> vec" where
  "matvec W x = map (\<lambda>w. dot w x) W"

definition vadd :: "vec \<Rightarrow> vec \<Rightarrow> vec" where
  "vadd a b = map2 (+) a b"

definition vmul :: "vec \<Rightarrow> vec \<Rightarrow> vec" where
  "vmul a b = map2 (*) a b"

definition reference_gate :: "nat \<Rightarrow> nat \<Rightarrow> cell_params \<Rightarrow> vec \<Rightarrow> vec \<Rightarrow> vec" where
  "reference_gate n k p x r =
     vadd (vadd (matvec (gate_block n k (i2h_weight p)) x) (gate_block n k (i2h_bias p)))
          (vadd (matvec (gate_block n k (h2h_weight p)) r) (gate_block n k (h2h_bias p)))"

definition reference_step :: "nat \<Rightarrow> cell_params \<Rightarrow> vec \<Rightarrow> vec \<Rightarrow> vec \<Rightarrow> vec \<times> vec" where
  "reference_step n p x r c =
     (let i_t = map sigmoid (reference_gate n 0 p x r);
          f_t = map sigmoid (reference_gate n 1 p x r);
          g_t = map tanh (reference_gate n 2 p x r);
          o_t = map sigmoid (reference_gate n 3 p x r);
          c_t = vadd (vmul f_t c) (vmul i_t g_t);
          h_t = vmul o_t (map tanh c_t);
          r_t = matvec (h2r_weight p) h_t
      in (r_t, c_t))"

definition reference_batch :: "nat \<Rightarrow> cell_params \<Rightarrow> tensor \<Rightarrow> tensor \<Rightarrow> tensor \<Rightarrow> (vec \<times> vec) list" where
  "reference_batch n p inputs rs cs =
     map (\<lambda>(x, r, c). reference_step n p x r c) (zip inputs (zip rs cs))"

text \<open>The weight matrices and biases of the two gate maps stack four blocks of
  \<open>hidden_size\<close> rows (\<open>num_hidden = hidden_size * 4\<close>).\<close>

definition gates_shaped :: "LSTMPCellWithClip \<Rightarrow> cell_params \<Rightarrow> bool" where
  "gates_shaped self p \<longleftrightarrow>
     length (i2h_weight p) = self_hidden_size self * 4 \<and>
     length (i2h_bias p) = self_hidden_size self * 4 \<and>
     length (h2h_weight p) = self_hidden_size self * 4 \<and>
     length (h2h_bias p) = self_hidden_size self * 4"

text \<open>Fixtures: a cell of one hidden and one projected unit with all weights zero.\<close>

definition zero_params :: cell_params where
  "zero_params = \<lparr> i2h_weight = [[0], [0], [0], [0]], h2h_weight = [[0], [0], [0], [0]],
                   h2r_weight = [[0]], i2h_bias = [0, 0, 0, 0], h2h_bias = [0, 0, 0, 0] \<rparr>"

definition unit_cell :: "real option \<Rightarrow> real option \<Rightarrow> LSTMPCellWithClip" where
  "unit_cell cc pc = \<lparr> self_hidden_size = 1, self_projection_size = 1, self_cell_clip = cc,
                      self_projection_clip = pc \<rparr>"

section \<open>The layer-stack builder\<close>

text \<open>
  The cells that \<open>_get_rnn_cell\<close> can put in a chain. The framework's cells are kept as
  constructor applications with the arguments the builder passes.
\<close>

datatype rnn_cell =
    RNNCell int string int
  | LSTMCell int int
  | GRUCell int int
  | LSTMPCell int "int option" "real option" "real option" int
  | ResidualCell rnn_cell
  | DropoutCell real

text \<open>
  One pass of the body of \<open>for i in range(num_layers)\<close>. The local variable \<open>cell\<close> is
  \<open>None\<close> while unbound; it keeps its value from one pass to the next. Reading it while
  unbound raises \<open>UnboundLocalError\<close>. The result is the variable and the cells added to
  \<open>rnn_cell\<close> in this pass.
\<close>

definition rnn_cell_pass ::
  "string \<Rightarrow> int \<Rightarrow> int \<Rightarrow> real \<Rightarrow> bool \<Rightarrow> int option \<Rightarrow> real option \<Rightarrow> real option
     \<Rightarrow> rnn_cell option \<Rightarrow> error + (rnn_cell option \<times> rnn_cell list)" where
  "rnn_cell_pass mode input_size hidden_size dropout skip_connection proj_size cell_clip proj_clip cell =
     (let cell1 =
            (if mode = ''rnn_relu'' then Some (RNNCell hidden_size ''relu'' input_size)
             else if mode = ''rnn_tanh'' then Some (RNNCell hidden_size ''tanh'' input_size)
             else if mode = ''lstm'' then Some (LSTMCell hidden_size input_size)
             else if mode = ''gru'' then Some (GRUCell hidden_size input_size)
             else if mode = ''lstmp'' then
               Some (LSTMPCell hidden_size proj_size cell_clip proj_clip input_size)
             else cell)
      in case cell1 of
           None \<Rightarrow> Inl UnboundLocalError
         | Some c \<Rightarrow>
             (let c2 = (if skip_connection then ResidualCell c else c)
              in Inr (Some c2, [c2] @ (if dropout \<noteq> 0 then [DropoutCell dropout] else []))))"

fun rnn_cell_loop ::
  "string \<Rightarrow> int \<Rightarrow> int \<Rightarrow> real \<Rightarrow> bool \<Rightarrow> int option \<Rightarrow> real option \<Rightarrow> real option
     \<Rightarrow> nat \<Rightarrow> rnn_cell option \<Rightarrow> rnn_cell list \<Rightarrow> error + rnn_cell list" where
  "rnn_cell_loop mode input_size hidden_size dropout skip proj_size cell_clip proj_clip 0 cell chain =
     Inr chain"
| "rnn_cell_loop mode input_size hidden_size dropout skip proj_size cell_clip proj_clip (Suc k) cell chain =
     (case rnn_cell_pass mode input_size hidden_size dropout skip proj_size cell_clip proj_clip cell of
        Inl e \<Rightarrow> Inl e
      | Inr (cell', added) \<Rightarrow>
          rnn_cell_loop mode input_size hidden_size dropout skip proj_size cell_clip proj_clip
            k cell' (chain @ added))"

text \<open>\<open>_get_rnn_cell\<close>: \<open>range(num_layers)\<close> has \<open>nat num_layers\<close> elements (none when
  \<open>num_layers\<close> is not positive); the chain starts empty and \<open>cell\<close> unbound.\<close>

definition get_rnn_cell ::
  "string \<Rightarrow> int \<Rightarrow> int \<Rightarrow> int \<Rightarrow> real \<Rightarrow> bool \<Rightarrow> int option \<Rightarrow> real option \<Rightarrow> real option
     \<Rightarrow> error + rnn_cell list" where
  "get_rnn_cell mode num_layers input_size hidden_size dropout skip_connection proj_size cell_clip proj_clip =
     rnn_cell_loop mode input_size hidden_size dropout skip_connection proj_size cell_clip proj_clip
       (nat num_layers) None []"

definition recognized_modes :: "string list" where
  "recognized_modes = [''rnn_relu'', ''rnn_tanh'', ''lstm'', ''gru'', ''lstmp'']"

section \<open>ElmoLSTM\<close>

subsection \<open>Construction\<close>




subsection \<open>The forward pass\<close>










section \<open>ElmoBiLM construction\<close>





section \<open>Perplexity\<close>

text \<open>
  \<open>math.exp\<close> on a float: the largest finite double is \<open>DBL_MAX\<close>; a result above it
  raises \<open>OverflowError\<close>. Rounding of representable results is not modelled.
\<close>

definition DBL_MAX :: real where
  "DBL_MAX = 2 ^ 1024 - 2 ^ 971"

definition math_exp :: "real \<Rightarrow> error + real" where
  "math_exp x = (if exp x > DBL_MAX then Inl OverflowError else Inr (exp x))"

datatype pyfloat = Finite real | PosInf

text \<open>\<open>get_ppl\<close>: the bare \<open>except\<close> catches whatever \<open>math.exp\<close> raises.\<close>

definition get_ppl :: "real \<Rightarrow> pyfloat" where
  "get_ppl cur_loss = (case math_exp cur_loss of Inr ppl \<Rightarrow> Finite ppl | Inl e \<Rightarrow> PosInf)"

text \<open>The perplexity argument of the progress and summary lines of both scripts
  (\<open>math.exp(cur_L)\<close>, \<open>math.exp(val_L)\<close>, \<open>math.exp(test_L)\<close>): \<open>math.exp\<close> is called
  directly, so what it raises leaves \<open>train\<close>.\<close>

definition report_ppl :: "real \<Rightarrow> error + pyfloat" where
  "report_ppl cur_L = (case math_exp cur_L of Inl e \<Rightarrow> Inl e | Inr ppl \<Rightarrow> Inr (Finite ppl))"

section \<open>The end of an epoch in \<open>train\<close>\<close>

text \<open>
  The variables of \<open>train\<close> that the end of an epoch reads and writes. \<open>best_val\<close> starts
  as \<open>float('Inf')\<close>, written \<open>None\<close>; \<open>update_lr_epoch\<close> is unbound (\<open>None\<close>) until its
  first assignment; \<open>learning_rate\<close> is the trainer's.
\<close>

record train_state =
  best_val :: "real option"
  update_lr_epoch :: "int option"
  learning_rate :: real

definition improves :: "real \<Rightarrow> train_state \<Rightarrow> bool" where
  "improves val_L s = (case best_val s of None \<Rightarrow> True | Some b \<Rightarrow> val_L < b)"

text \<open>
  The statements of one epoch after the batches, in both scripts: the validation summary
  line, then the branch on \<open>val_L < best_val\<close>. \<open>val_L\<close> and \<open>test_L\<close> are what
  \<open>evaluate\<close> returns on the validation and test data (the latter is only asked for in
  the improving branch). Saving the parameters and printing have no effect on the state.
\<close>

definition epoch_end :: "int \<Rightarrow> real \<Rightarrow> real \<times> real \<Rightarrow> train_state \<Rightarrow> error + train_state" where
  "epoch_end lr_update_interval lr_update_factor losses s =
     (case losses of (val_L, test_L) \<Rightarrow>
      (case report_ppl val_L of
         Inl e \<Rightarrow> Inl e
       | Inr val_ppl \<Rightarrow>
           (if improves val_L s then
              (case report_ppl test_L of
                 Inl e \<Rightarrow> Inl e
               | Inr test_ppl \<Rightarrow> Inr (s\<lparr> update_lr_epoch := Some 0, best_val := Some val_L \<rparr>))
            else
              (case update_lr_epoch s of
                 None \<Rightarrow> Inl UnboundLocalError
               | Some u \<Rightarrow>
                   (let u1 = u + 1 in
                    if lr_update_interval = 0 then Inl ZeroDivisionError
                    else if u1 mod lr_update_interval = 0 \<and> u1 \<noteq> 0 then
                      Inr (s\<lparr> learning_rate := learning_rate s * lr_update_factor,
                              update_lr_epoch := Some 0 \<rparr>)
                    else Inr (s\<lparr> update_lr_epoch := Some u1 \<rparr>))))))"

text \<open>Consecutive epochs, given the losses that \<open>evaluate\<close> returns in each.\<close>

fun run_epochs :: "int \<Rightarrow> real \<Rightarrow> (real \<times> real) list \<Rightarrow> train_state \<Rightarrow> error + train_state" where
  "run_epochs lr_update_interval lr_update_factor [] s = Inr s"
| "run_epochs lr_update_interval lr_update_factor (l # ls) s =
     (case epoch_end lr_update_interval lr_update_factor l s of
        Inl e \<Rightarrow> Inl e
      | Inr s' \<Rightarrow> run_epochs lr_update_interval lr_update_factor ls s')"

section \<open>Batches and the scored targets\<close>

text \<open>
  \<open>data_source\<close> has shape (length, batch): a list of rows, one per position. A Python
  slice \<open>xs[a:b]\<close> with integer bounds: a negative bound counts from the end, and both are
  cut to the list.
\<close>

definition slice_bound :: "'a list \<Rightarrow> int \<Rightarrow> nat" where
  "slice_bound xs k =
     (if k < 0 then nat (max 0 (k + int (length xs))) else min (nat k) (length xs))"

definition py_slice :: "'a list \<Rightarrow> int \<Rightarrow> int \<Rightarrow> 'a list" where
  "py_slice xs a b = take (slice_bound xs b - slice_bound xs a) (drop (slice_bound xs a) xs)"

text \<open>\<open>get_batch\<close>; \<open>seq_len\<close> is \<open>None\<close> when the caller leaves it out, and \<open>0\<close> counts
  as left out.\<close>

definition get_batch :: "int \<Rightarrow> 'r list \<Rightarrow> int \<Rightarrow> int option \<Rightarrow> 'r list \<times> 'r list" where
  "get_batch bptt data_source i seq_len =
     (let seq_len1 = min (case seq_len of None \<Rightarrow> bptt
                                        | Some n \<Rightarrow> if n \<noteq> 0 then n else bptt)
                         (int (length data_source) - 1 - i)
      in (py_slice data_source i (i + seq_len1),
          py_slice data_source (i + 1) (i + 1 + seq_len1)))"

text \<open>
  The body of the loop of \<open>evaluate\<close> at offset \<open>i\<close>. The language model maps the pair of
  streams and the hidden state to the pair of logits and the next hidden state; \<open>loss\<close> is
  the cross-entropy, from logits and labels (both flattened by the caller) to one value
  per label. The result is the increment of \<open>total_L\<close>, the increment of \<open>ntotal\<close>, and
  the hidden state.
\<close>

definition evaluate_body ::
  "('r list \<times> 'r list \<Rightarrow> 'h \<Rightarrow> ('o \<times> 'o) \<times> 'h) \<Rightarrow> ('o \<Rightarrow> 'r list \<Rightarrow> real list) \<Rightarrow> int
     \<Rightarrow> 'r list \<Rightarrow> int \<Rightarrow> 'h \<Rightarrow> real \<times> nat \<times> 'h" where
  "evaluate_body lm loss bptt data_source i hidden =
     (case get_batch bptt data_source i None of (data, target) \<Rightarrow>
      (case lm (data, target) hidden of (output, hidden') \<Rightarrow>
         (let L1 = loss (fst output) target;
              L2 = loss (snd output) data
          in (sum_list L1 + sum_list L2, 2 * length L2, hidden'))))"

text \<open>\<open>range(0, n, step)\<close> for a positive step.\<close>

definition range_step :: "int \<Rightarrow> int \<Rightarrow> int list" where
  "range_step n step = map (\<lambda>k. int k * step) [0..<nat ((n + step - 1) div step)]"

fun evaluate_loop ::
  "('r list \<times> 'r list \<Rightarrow> 'h \<Rightarrow> ('o \<times> 'o) \<times> 'h) \<Rightarrow> ('o \<Rightarrow> 'r list \<Rightarrow> real list) \<Rightarrow> int
     \<Rightarrow> 'r list \<Rightarrow> int list \<Rightarrow> real \<times> nat \<times> 'h \<Rightarrow> real \<times> nat \<times> 'h" where
  "evaluate_loop lm loss bptt data_source [] acc = acc"
| "evaluate_loop lm loss bptt data_source (i # is) (total_L, ntotal, hidden) =
     (case evaluate_body lm loss bptt data_source i hidden of
        (dL, dn, hidden') \<Rightarrow>
          evaluate_loop lm loss bptt data_source is (total_L + dL, ntotal + dn, hidden'))"

text \<open>\<open>evaluate\<close>: \<open>range\<close> refuses a zero step, and the final division refuses a zero
  \<open>ntotal\<close>. A negative \<open>bptt\<close> gives an empty range.\<close>

definition evaluate ::
  "('r list \<times> 'r list \<Rightarrow> 'h \<Rightarrow> ('o \<times> 'o) \<times> 'h) \<Rightarrow> ('o \<Rightarrow> 'r list \<Rightarrow> real list) \<Rightarrow> int
     \<Rightarrow> 'h \<Rightarrow> 'r list \<Rightarrow> error + real" where
  "evaluate lm loss bptt hidden0 data_source =
     (if bptt = 0 then Inl ValueError
      else
        (case evaluate_loop lm loss bptt data_source
                (if bptt < 0 then [] else range_step (int (length data_source) - 1) bptt)
                (0, 0, hidden0) of
           (total_L, ntotal, hidden) \<Rightarrow>
             if ntotal = 0 then Inl ZeroDivisionError else Inr (total_L / real ntotal)))"



section \<open>The scripts up to model construction\<close>

datatype device = cpu | gpu int

datatype phase = ParseArgs | LoadData | BuildModel | Training | Evaluation

text \<open>\<open>str.split(',')\<close>.\<close>

fun split_comma :: "string \<Rightarrow> string list" where
  "split_comma [] = [[]]"
| "split_comma (c # cs) =
     (if c = CHR '','' then [] # split_comma cs
      else (case split_comma cs of
              [] \<Rightarrow> [[c]]
            | w # ws \<Rightarrow> (c # w) # ws))"

text \<open>The list \<open>context\<close> of devices; \<open>py_int\<close> is the builtin \<open>int\<close> on strings, \<open>None\<close>
  where it raises \<open>ValueError\<close>.\<close>

definition devices_of :: "(string \<Rightarrow> int option) \<Rightarrow> string option \<Rightarrow> error + device list" where
  "devices_of py_int gpus =
     (case gpus of
        None \<Rightarrow> Inr [cpu]
      | Some g \<Rightarrow>
          if g = [] then Inr [cpu]
          else if list_all (\<lambda>x. py_int x \<noteq> None) (split_comma g)
          then Inr (map (\<lambda>x. gpu (case py_int x of Some n \<Rightarrow> n | None \<Rightarrow> 0)) (split_comma g))
          else Inl ValueError)"

definition num_devices :: "string option \<Rightarrow> nat" where
  "num_devices gpus =
     (case gpus of None \<Rightarrow> 1 | Some g \<Rightarrow> if g = [] then 1 else length (split_comma g))"

record elmo_args =
  args_batch_size :: int
  args_gpus :: "string option"
  args_weight_dropout :: real
  args_alpha :: real

text \<open>The parser of \<open>bi_language_model.py\<close> defines no \<open>--weight_dropout\<close>.\<close>

record bi_args =
  bi_batch_size :: int
  bi_gpus :: "string option"
  bi_alpha :: real

text \<open>The two module-level assertions of the ELMo script.\<close>

definition elmo_asserts :: "elmo_args \<Rightarrow> device list \<Rightarrow> error + unit" where
  "elmo_asserts args ctx_list =
     (if args_batch_size args mod int (length ctx_list) \<noteq> 0 then Inl AssertionError
      else if \<not> (args_weight_dropout args > 0
                  \<or> (args_weight_dropout args = 0 \<and> args_alpha args = 0))
      then Inl AssertionError
      else Inr ())"

text \<open>The same two statements in \<open>bi_language_model.py\<close>: reading \<open>args.weight_dropout\<close>
  raises \<open>AttributeError\<close>, since \<open>args\<close> has no such attribute.\<close>

definition bi_asserts :: "bi_args \<Rightarrow> device list \<Rightarrow> error + unit" where
  "bi_asserts args ctx_list =
     (if bi_batch_size args mod int (length ctx_list) \<noteq> 0 then Inl AssertionError
      else Inl AttributeError)"

text \<open>
  Modules: the files beside \<open>word_language_model.py\<close>, which come first on the module
  search path, and the names the ELMo script imports, in order. A module is importable
  when it is beside the script or among the installed ones.
\<close>

definition elmo_dir_modules :: "string list" where
  "elmo_dir_modules = [''LSTMPCellWithClip'', ''word_language_model'']"

definition elmo_imports :: "string list" where
  "elmo_imports = [''argparse'', ''time'', ''math'', ''os'', ''sys'', ''mxnet'', ''gluonnlp'',
                   ''LSTMPCellLSTMPCellWithClip'']"

definition bi_imports :: "string list" where
  "bi_imports = [''argparse'', ''time'', ''math'', ''os'', ''sys'', ''mxnet'', ''gluonnlp'']"

definition importable :: "string list \<Rightarrow> string list \<Rightarrow> string \<Rightarrow> bool" where
  "importable beside installed m = (m \<in> set beside \<or> m \<in> set installed)"

text \<open>
  A run of a script: the phases it completed and how it ended. The statements after the
  assertions (loading the data, building the model, training, evaluating) are \<open>rest\<close>.
\<close>

definition elmo_script ::
  "string list \<Rightarrow> (string \<Rightarrow> int option) \<Rightarrow> (elmo_args \<Rightarrow> device list \<Rightarrow> phase list \<times> (error + unit))
     \<Rightarrow> elmo_args \<Rightarrow> phase list \<times> (error + unit)" where
  "elmo_script installed py_int rest args =
     (if \<not> list_all (importable elmo_dir_modules installed) elmo_imports then ([], Inl ImportError)
      else
        (case devices_of py_int (args_gpus args) of
           Inl e \<Rightarrow> ([ParseArgs], Inl e)
         | Inr ctx_list \<Rightarrow>
             (case elmo_asserts args ctx_list of
                Inl e \<Rightarrow> ([ParseArgs], Inl e)
              | Inr u \<Rightarrow> (case rest args ctx_list of (ps, r) \<Rightarrow> (ParseArgs # ps, r)))))"

definition bi_script ::
  "string list \<Rightarrow> (string \<Rightarrow> int option) \<Rightarrow> (bi_args \<Rightarrow> device list \<Rightarrow> phase list \<times> (error + unit))
     \<Rightarrow> bi_args \<Rightarrow> phase list \<times> (error + unit)" where
  "bi_script installed py_int rest args =
     (if \<not> list_all (importable [''bi_language_model''] installed) bi_imports then ([], Inl ImportError)
      else
        (case devices_of py_int (bi_gpus args) of
           Inl e \<Rightarrow> ([ParseArgs], Inl e)
         | Inr ctx_list \<Rightarrow>
             (case bi_asserts args ctx_list of
                Inl e \<Rightarrow> ([ParseArgs], Inl e)
              | Inr u \<Rightarrow> (case rest args ctx_list of (ps, r) \<Rightarrow> (ParseArgs # ps, r)))))"



definition framework_modules :: "string list" where
  "framework_modules = [''argparse'', ''time'', ''math'', ''os'', ''sys'', ''mxnet'', ''gluonnlp'']"

definition build_and_train :: "'a \<Rightarrow> device list \<Rightarrow> phase list \<times> (error + unit)" where
  "build_and_train args ctx_list = ([LoadData, BuildModel, Training, Evaluation], Inr ())"

section \<open>Properties of the cell\<close>






subsection \<open>The unclipped cell against the documented equations\<close>

lemma gate_row:
  assumes "length W = n * 4" "length b = n * 4" "length V = n * 4" "length d = n * 4"
  shows "take n (drop (k * n)
           (map2 (+) (map2 (\<lambda>w c. dot w x + c) W b) (map2 (\<lambda>w c. dot w r + c) V d)))
       = vadd (vadd (matvec (gate_block n k W) x) (gate_block n k b))
              (vadd (matvec (gate_block n k V) r) (gate_block n k d))"
  by (simp add: vadd_def matvec_def gate_block_def take_zip drop_zip take_map drop_map
        zip_map1 zip_map2 split_def)

lemma slice_gate:
  assumes "gates_shaped self p"
  shows "SliceChannel (tplus (FullyConnected [x] (i2h_weight p) (Some (i2h_bias p)))
                             (FullyConnected [r] (h2h_weight p) (Some (h2h_bias p)))) 4 k
         = [reference_gate (self_hidden_size self) k p x r]"
proof -
  let ?n = "self_hidden_size self"
  let ?G = "map2 (+) (map2 (\<lambda>w c. dot w x + c) (i2h_weight p) (i2h_bias p))
                     (map2 (\<lambda>w c. dot w r + c) (h2h_weight p) (h2h_bias p))"
  from assms have len: "length ?G = ?n * 4" by (simp add: gates_shaped_def)
  have "SliceChannel [?G] 4 k = [take ?n (drop (k * ?n) ?G)]"
    unfolding SliceChannel_def using len by simp
  also have "take ?n (drop (k * ?n) ?G) = reference_gate ?n k p x r"
    unfolding reference_gate_def using assms
    by (intro gate_row) (simp_all add: gates_shaped_def)
  finally show ?thesis by (simp add: tplus_def FullyConnected_def)
qed

lemma act_fn_eta: "act_fn Sigmoid = sigmoid" "act_fn Tanh = tanh"
  by (rule ext, simp)+

lemma hybrid_forward_single:
  assumes "gates_shaped self p" "self_cell_clip self = None" "self_projection_clip self = None"
  shows "hybrid_forward self [x] ([r], [c]) p =
     (case reference_step (self_hidden_size self) p x r c of
        (r_t, c_t) \<Rightarrow> ([r_t], ([r_t], [c_t])))"
  apply (simp only: hybrid_forward_def Let_def fst_conv snd_conv slice_gate[OF assms(1)]
           assms(2,3) option.case)
  apply (simp add: act_fn_eta Activation_def tplus_def tmul_def FullyConnected_def
           reference_step_def Let_def vadd_def vmul_def matvec_def)
  done

lemma hybrid_forward_no_inputs: "hybrid_forward self [] st p = ([], ([], []))"
  by (simp add: hybrid_forward_def Let_def FullyConnected_def tplus_def tmul_def
        SliceChannel_def Activation_def clip_def split: option.splits)

lemma hybrid_forward_no_outputs: "hybrid_forward self xs ([], cs) p = ([], ([], []))"
  by (simp add: hybrid_forward_def Let_def FullyConnected_def tplus_def tmul_def
        SliceChannel_def Activation_def clip_def split: option.splits)

lemma hybrid_forward_no_cells: "hybrid_forward self xs (rs, []) p = ([], ([], []))"
  by (simp add: hybrid_forward_def Let_def FullyConnected_def tplus_def tmul_def
        SliceChannel_def Activation_def clip_def split: option.splits)

lemma hybrid_forward_rows:
  "hybrid_forward self (x # xs) (r # rs, c # cs) p =
    (case hybrid_forward self [x] ([r], [c]) p of (o1, (r1, c1)) \<Rightarrow>
      case hybrid_forward self xs (rs, cs) p of (o2, (r2, c2)) \<Rightarrow>
        (o1 @ o2, (r1 @ r2, c1 @ c2)))"
  by (simp add: hybrid_forward_def Let_def FullyConnected_def tplus_def tmul_def
        SliceChannel_def Activation_def clip_def split: option.splits)

text \<open>
  C2. With \<open>cell_clip\<close> and \<open>projection_clip\<close> both \<open>None\<close> (and the gate weights and
  biases holding four blocks of \<open>hidden_size\<close> rows), one call of \<open>hybrid_forward\<close> gives,
  for every example of the batch, the \<open>r_t\<close> and \<open>c_t\<close> of the unclipped projected-LSTM
  equations; the emitted output is \<open>r_t\<close> and the new state is \<open>(r_t, c_t)\<close>.
\<close>

theorem unclipped_cell_is_reference:
  assumes "gates_shaped self p"
      and "self_cell_clip self = None" and "self_projection_clip self = None"
  shows "hybrid_forward self inputs (rs, cs) p =
     (map fst (reference_batch (self_hidden_size self) p inputs rs cs),
      (map fst (reference_batch (self_hidden_size self) p inputs rs cs),
       map snd (reference_batch (self_hidden_size self) p inputs rs cs)))"
proof (induction inputs arbitrary: rs cs)
  case Nil
  show ?case by (simp add: hybrid_forward_no_inputs reference_batch_def)
next
  case (Cons x xs)
  show ?case
  proof (cases rs)
    case Nil
    then show ?thesis by (simp add: hybrid_forward_no_outputs reference_batch_def)
  next
    case rs: (Cons r rs')
    show ?thesis
    proof (cases cs)
      case Nil
      then show ?thesis by (simp add: hybrid_forward_no_cells reference_batch_def)
    next
      case cs: (Cons c cs')
      show ?thesis
        unfolding rs cs
        by (subst hybrid_forward_rows)
           (simp add: hybrid_forward_single[OF assms] Cons.IH reference_batch_def
              split: prod.splits)
    qed
  qed
qed

theorem unclipped_cell_is_reference_witness:
  "gates_shaped (unit_cell None None) zero_params
   \<and> hybrid_forward (unit_cell None None) [[5]] ([[7]], [[100]]) zero_params =
       (map fst (reference_batch 1 zero_params [[5]] [[7]] [[100]]),
        (map fst (reference_batch 1 zero_params [[5]] [[7]] [[100]]),
         map snd (reference_batch 1 zero_params [[5]] [[7]] [[100]])))
   \<and> map snd (reference_batch 1 zero_params [[5]] [[7]] [[100]]) = [[50]]"
  using unclipped_cell_is_reference [of "unit_cell None None" zero_params "[[5]]" "[[7]]" "[[100]]"]
  by (simp add: unit_cell_def zero_params_def gates_shaped_def reference_batch_def
        reference_step_def reference_gate_def gate_block_def matvec_def vadd_def vmul_def
        dot_def sigmoid_def Let_def)

section \<open>Properties of the layer-stack builder\<close>

text \<open>
  C10. For a mode outside the five recognized ones and \<open>num_layers \<ge> 1\<close>,
  \<open>_get_rnn_cell\<close> returns no chain: the first pass of the loop reads the variable
  \<open>cell\<close>, which no branch has assigned, and raises \<open>UnboundLocalError\<close>.
\<close>

theorem unknown_mode_unbound_cell:
  assumes "mode \<notin> set recognized_modes" and "1 \<le> num_layers"
  shows "get_rnn_cell mode num_layers input_size hidden_size dropout skip_connection
           proj_size cell_clip proj_clip = Inl UnboundLocalError"
proof -
  from assms(2) obtain k where k: "nat num_layers = Suc k"
    by (cases "nat num_layers") auto
  from assms(1) show ?thesis
    by (simp add: get_rnn_cell_def k rnn_cell_pass_def recognized_modes_def)
qed

theorem unknown_mode_unbound_cell_witness:
  "''transformer'' \<notin> set recognized_modes \<and> (1::int) \<le> 2
   \<and> get_rnn_cell ''transformer'' 2 400 1150 0.4 True None None None = Inl UnboundLocalError"
  using unknown_mode_unbound_cell [of "''transformer''" 2 400 1150 "0.4" True None None None]
  by (simp add: recognized_modes_def)


section \<open>Properties of the encoder\<close>






section \<open>Properties of the language-model construction\<close>






section \<open>Properties of the perplexity computations\<close>

lemma exp_2000_overflows: "exp (2000::real) > DBL_MAX"
proof -
  have "(2::real) \<le> exp 1" using exp_ge_add_one_self[of "1::real"] by simp
  then have "(2::real) ^ 2000 \<le> exp 1 ^ 2000" by (rule power_mono) simp
  also have "exp (1::real) ^ 2000 = exp (1 * of_nat 2000)"
    by (rule exp_of_nat2_mult[symmetric])
  finally have "(2::real) ^ 2000 \<le> exp 2000" by simp
  moreover have "DBL_MAX < (2::real) ^ 1024" by (simp add: DBL_MAX_def)
  moreover have "(2::real) ^ 1024 \<le> 2 ^ 2000" by (rule power_increasing) simp_all
  ultimately show ?thesis by linarith
qed

text \<open>
  C8 (as amended). \<open>get_ppl\<close> returns \<open>exp(L)\<close> when that is representable and \<open>+inf\<close>
  when it overflows, and raises nothing. A perplexity computed by \<open>math.exp\<close> directly,
  as in the lines that \<open>bi_language_model.py\<close> prints, is \<open>exp(L)\<close> when that is
  representable, and raises \<open>OverflowError\<close> when it overflows.
\<close>

theorem perplexity_overflow:
  "get_ppl cur_loss = (if exp cur_loss \<le> DBL_MAX then Finite (exp cur_loss) else PosInf)
   \<and> report_ppl cur_loss =
       (if exp cur_loss \<le> DBL_MAX then Inr (Finite (exp cur_loss)) else Inl OverflowError)"
  by (simp add: get_ppl_def report_ppl_def math_exp_def)

theorem perplexity_overflow_witness:
  "get_ppl 2000 = PosInf \<and> get_ppl 0 = Finite 1 \<and> report_ppl 0 = Inr (Finite 1)"
  using perplexity_overflow [of 2000] perplexity_overflow [of 0] exp_2000_overflows
  by (simp add: DBL_MAX_def)

text \<open>A loss of \<open>2000\<close> in a progress or summary line: \<open>math.exp\<close> overflows and the
  exception is not caught.\<close>

theorem report_ppl_raises_counterexample:
  "report_ppl 2000 = Inl OverflowError"
  using exp_2000_overflows by (simp add: report_ppl_def math_exp_def)

section \<open>Properties of the learning-rate schedule\<close>

lemma improves_counter [simp]: "improves v (s\<lparr>update_lr_epoch := u\<rparr>) = improves v s"
  by (simp add: improves_def)

lemma report_ppl_ok: "exp v \<le> DBL_MAX \<Longrightarrow> report_ppl v = Inr (Finite (exp v))"
  by (simp add: report_ppl_def math_exp_def)

lemma epoch_end_count:
  assumes "\<not> improves v s" "exp v \<le> DBL_MAX" "update_lr_epoch s = Some u" "0 \<le> u"
      and "u + 1 < n"
  shows "epoch_end n f (v, t) s = Inr (s\<lparr>update_lr_epoch := Some (u + 1)\<rparr>)"
  using assms by (simp add: epoch_end_def report_ppl_ok Let_def)

lemma epoch_end_decay:
  assumes "\<not> improves v s" "exp v \<le> DBL_MAX" "update_lr_epoch s = Some u" "0 \<le> u"
      and "u + 1 = n"
  shows "epoch_end n f (v, t) s =
           Inr (s\<lparr>learning_rate := learning_rate s * f, update_lr_epoch := Some 0\<rparr>)"
  using assms by (auto simp add: epoch_end_def report_ppl_ok Let_def)

lemma epoch_end_improves:
  assumes "improves v s" "exp v \<le> DBL_MAX" "exp t \<le> DBL_MAX"
  shows "epoch_end n f (v, t) s = Inr (s\<lparr>update_lr_epoch := Some 0, best_val := Some v\<rparr>)"
  using assms by (simp add: epoch_end_def report_ppl_ok)

lemma run_epochs_count:
  assumes "\<forall>l \<in> set ls. \<not> improves (fst l) s \<and> exp (fst l) \<le> DBL_MAX"
      and "update_lr_epoch s = Some u" "0 \<le> u" "u + int (length ls) < n"
  shows "run_epochs n f ls s = Inr (s\<lparr>update_lr_epoch := Some (u + int (length ls))\<rparr>)"
  using assms
proof (induction ls arbitrary: s u)
  case Nil
  then show ?case by simp
next
  case (Cons l ls)
  obtain v t where l: "l = (v, t)" by (cases l)
  from Cons.prems l
  have step: "epoch_end n f (v, t) s = Inr (s\<lparr>update_lr_epoch := Some (u + 1)\<rparr>)"
    by (intro epoch_end_count) auto
  have "run_epochs n f ls (s\<lparr>update_lr_epoch := Some (u + 1)\<rparr>)
          = Inr (s\<lparr>update_lr_epoch := Some (u + 1)\<rparr>
                   \<lparr>update_lr_epoch := Some (u + 1 + int (length ls))\<rparr>)"
    using Cons.prems by (intro Cons.IH) auto
  then show ?case by (simp add: l step add.assoc add.commute)
qed

lemma run_epochs_append:
  "run_epochs n f (xs @ ys) s =
     (case run_epochs n f xs s of Inl e \<Rightarrow> Inl e | Inr s' \<Rightarrow> run_epochs n f ys s')"
  by (induction xs arbitrary: s) (auto split: sum.splits)

lemma exp_0_fits: "exp (0::real) \<le> DBL_MAX"
  by (simp add: DBL_MAX_def)

lemma exp_1_fits: "exp (1::real) \<le> DBL_MAX"
proof -
  have "exp (1::real) \<le> 3" using exp_le by simp
  also have "\<dots> \<le> DBL_MAX" by (simp add: DBL_MAX_def)
  finally show ?thesis .
qed

text \<open>
  C5. From a counter of zero, \<open>lr_update_interval\<close> (at least one) consecutive epochs whose
  validation loss does not improve on the best value (and whose perplexity can be printed)
  end with the learning rate equal to the previous rate times \<open>lr_update_factor\<close> and the
  counter back at zero; after fewer such epochs the rate is unchanged and the counter is
  their number. An epoch that improves the validation loss sets the counter to zero and
  records the loss, and leaves the learning rate as it was.
\<close>

theorem lr_decay_schedule:
  assumes "0 < lr_update_interval"
      and "update_lr_epoch s = Some 0"
      and "length ls = nat lr_update_interval"
      and "\<forall>l \<in> set ls. \<not> improves (fst l) s \<and> exp (fst l) \<le> DBL_MAX"
  shows "run_epochs lr_update_interval f ls s
           = Inr (s\<lparr>learning_rate := learning_rate s * f, update_lr_epoch := Some 0\<rparr>)
       \<and> (\<forall>k < length ls. run_epochs lr_update_interval f (take k ls) s
                              = Inr (s\<lparr>update_lr_epoch := Some (int k)\<rparr>))
       \<and> (\<forall>s' v t. improves v s' \<and> exp v \<le> DBL_MAX \<and> exp t \<le> DBL_MAX \<longrightarrow>
             epoch_end lr_update_interval f (v, t) s'
               = Inr (s'\<lparr>update_lr_epoch := Some 0, best_val := Some v\<rparr>))"
proof (intro conjI allI impI)
  show "epoch_end lr_update_interval f (v, t) s'
          = Inr (s'\<lparr>update_lr_epoch := Some 0, best_val := Some v\<rparr>)"
    if "improves v s' \<and> exp v \<le> DBL_MAX \<and> exp t \<le> DBL_MAX" for s' v t
    using that by (simp add: epoch_end_improves)
next
  fix k assume k: "k < length ls"
  have "\<forall>l \<in> set (take k ls). \<not> improves (fst l) s \<and> exp (fst l) \<le> DBL_MAX"
    using assms(4) by (meson in_set_takeD)
  moreover have "0 + int (length (take k ls)) < lr_update_interval"
    using k assms(1,3) by simp
  ultimately have "run_epochs lr_update_interval f (take k ls) s
      = Inr (s\<lparr>update_lr_epoch := Some (0 + int (length (take k ls)))\<rparr>)"
    using assms(2) by (intro run_epochs_count) auto
  then show "run_epochs lr_update_interval f (take k ls) s
               = Inr (s\<lparr>update_lr_epoch := Some (int k)\<rparr>)"
    using k by (simp add: min_def)
next
  from assms(1,3) have ne: "ls \<noteq> []" by auto
  then obtain xs l where ls: "ls = xs @ [l]" by (metis rev_exhaust)
  obtain v t where l: "l = (v, t)" by (cases l)
  have len: "int (length xs) + 1 = lr_update_interval" using assms(1,3) ls by simp
  have pre: "run_epochs lr_update_interval f xs s
               = Inr (s\<lparr>update_lr_epoch := Some (0 + int (length xs))\<rparr>)"
    using assms(2,4) ls len by (intro run_epochs_count) auto
  have last: "epoch_end lr_update_interval f (v, t)
                (s\<lparr>update_lr_epoch := Some (int (length xs))\<rparr>)
      = Inr (s\<lparr>update_lr_epoch := Some (int (length xs))\<rparr>
               \<lparr>learning_rate :=
                  learning_rate (s\<lparr>update_lr_epoch := Some (int (length xs))\<rparr>) * f,
                update_lr_epoch := Some 0\<rparr>)"
    using assms(4) ls l len by (intro epoch_end_decay) auto
  show "run_epochs lr_update_interval f ls s
           = Inr (s\<lparr>learning_rate := learning_rate s * f, update_lr_epoch := Some 0\<rparr>)"
    using pre last by (simp add: ls l run_epochs_append)
qed

theorem lr_decay_schedule_witness:
  "run_epochs 2 (1/10) [(1, 0), (1, 0)]
       \<lparr>best_val = Some 0, update_lr_epoch = Some 0, learning_rate = 30\<rparr>
     = Inr \<lparr>best_val = Some 0, update_lr_epoch = Some 0, learning_rate = 3\<rparr>
   \<and> run_epochs 2 (1/10) [(1, 0)]
       \<lparr>best_val = Some 0, update_lr_epoch = Some 0, learning_rate = 30\<rparr>
     = Inr \<lparr>best_val = Some 0, update_lr_epoch = Some 1, learning_rate = 30\<rparr>
   \<and> epoch_end 2 (1/10) (0, 0)
       \<lparr>best_val = Some 1, update_lr_epoch = Some 1, learning_rate = 30\<rparr>
     = Inr \<lparr>best_val = Some 0, update_lr_epoch = Some 0, learning_rate = 30\<rparr>"
  using lr_decay_schedule
          [of 2 "\<lparr>best_val = Some 0, update_lr_epoch = Some 0, learning_rate = 30\<rparr>"
              "[(1, 0), (1, 0)]" "1/10"]
        exp_0_fits exp_1_fits
  apply (simp add: improves_def)
  apply (elim conjE)
  apply (drule_tac x="Suc 0" in spec)
  apply (drule_tac x="\<lparr>best_val = Some 1, update_lr_epoch = Some 1, learning_rate = 30\<rparr>" in spec)
  apply (drule_tac x=0 in spec)
  apply (drule_tac x=0 in spec)
  apply (simp add: improves_def)
  done

section \<open>Properties of the scored targets\<close>





section \<open>Properties of the scripts\<close>

lemma devices_length:
  "devices_of py_int gpus = Inr ctx_list \<Longrightarrow> length ctx_list = num_devices gpus"
  by (auto simp add: devices_of_def num_devices_def split: option.splits if_splits)

text \<open>
  C7. When the batch size is not a multiple of the number of devices, or the weight
  dropout is zero while \<open>alpha\<close> is not, both scripts end in an exception having completed
  nothing beyond the parsing of the arguments: no data is loaded, no model built, nothing
  trained or evaluated. In the ELMo script the two assertions fail on every such
  configuration whose device list can be built.
\<close>

theorem config_checks_fatal:
  assumes "batch mod int (num_devices gpus) \<noteq> 0 \<or> (wd = 0 \<and> alpha \<noteq> 0)"
  shows "(\<exists>e. snd (elmo_script installed py_int rest
                    \<lparr>args_batch_size = batch, args_gpus = gpus,
                      args_weight_dropout = wd, args_alpha = alpha\<rparr>) = Inl e)
       \<and> set (fst (elmo_script installed py_int rest
                    \<lparr>args_batch_size = batch, args_gpus = gpus,
                      args_weight_dropout = wd, args_alpha = alpha\<rparr>)) \<subseteq> {ParseArgs}
       \<and> (\<forall>ctx_list. devices_of py_int gpus = Inr ctx_list \<longrightarrow>
             elmo_asserts \<lparr>args_batch_size = batch, args_gpus = gpus,
                           args_weight_dropout = wd, args_alpha = alpha\<rparr> ctx_list
               = Inl AssertionError)
       \<and> (\<exists>e. snd (bi_script installed py_int rest'
                    \<lparr>bi_batch_size = batch, bi_gpus = gpus, bi_alpha = alpha\<rparr>) = Inl e)
       \<and> set (fst (bi_script installed py_int rest'
                    \<lparr>bi_batch_size = batch, bi_gpus = gpus, bi_alpha = alpha\<rparr>)) \<subseteq> {ParseArgs}"
proof -
  have a: "elmo_asserts \<lparr>args_batch_size = batch, args_gpus = gpus,
                         args_weight_dropout = wd, args_alpha = alpha\<rparr> ctx_list
               = Inl AssertionError"
    if "devices_of py_int gpus = Inr ctx_list" for ctx_list
    using assms devices_length[OF that] by (auto simp add: elmo_asserts_def)
  have b: "bi_asserts x c \<noteq> Inr u" for x c u
    by (simp add: bi_asserts_def)
  show ?thesis
    using a
    by (auto simp add: b elmo_script_def bi_script_def split: sum.splits prod.splits)
qed

theorem config_checks_fatal_witness:
  "(80::int) mod int (num_devices (Some ''0,1,2'')) \<noteq> 0
   \<and> elmo_asserts \<lparr>args_batch_size = 80, args_gpus = Some ''0,1,2'',
                   args_weight_dropout = 0.5, args_alpha = 2\<rparr> [gpu 0, gpu 1, gpu 2]
       = Inl AssertionError
   \<and> bi_script framework_modules (\<lambda>x. Some 0) build_and_train
        \<lparr>bi_batch_size = 80, bi_gpus = Some ''0,1,2'', bi_alpha = 2\<rparr>
       = ([ParseArgs], Inl AssertionError)"
  using config_checks_fatal
          [of 80 "Some ''0,1,2''" "0.5" 2 framework_modules "\<lambda>x. Some 0"
              build_and_train build_and_train]
  by (simp add: num_devices_def elmo_asserts_def bi_script_def bi_asserts_def devices_of_def
        importable_def bi_imports_def framework_modules_def)

text \<open>
  C9. The ELMo script imports \<open>LSTMPCellLSTMPCellWithClip\<close>, while the file beside it is
  \<open>LSTMPCellWithClip.py\<close>: unless a module of the imported name is installed elsewhere,
  every run of the script ends with an import error before any argument is parsed, any
  data loaded or anything trained.
\<close>

theorem elmo_import_fails:
  assumes "''LSTMPCellLSTMPCellWithClip'' \<notin> set installed"
  shows "elmo_script installed py_int rest args = ([], Inl ImportError)"
  using assms
  by (simp add: elmo_script_def elmo_imports_def importable_def elmo_dir_modules_def)

theorem elmo_import_fails_witness:
  "''LSTMPCellLSTMPCellWithClip'' \<notin> set framework_modules
   \<and> elmo_script framework_modules (\<lambda>x. Some 0) build_and_train
        \<lparr>args_batch_size = 80, args_gpus = None, args_weight_dropout = 0.5, args_alpha = 2\<rparr>
       = ([], Inl ImportError)"
  using elmo_import_fails
          [of framework_modules "\<lambda>x. Some 0" build_and_train
              "\<lparr>args_batch_size = 80, args_gpus = None, args_weight_dropout = 0.5,
                args_alpha = 2\<rparr>"]
  by (simp add: framework_modules_def)

end
